theory Spec2Isabelle
  imports Complex_Main
begin

section \<open>JavaScript values\<close>

text \<open>
  A JavaScript \<^verbatim>\<open>number\<close>: the finite doubles are read as the reals they denote
  (so \<open>Finite (5/2)\<close> is 2.5), beside \<^verbatim>\<open>NaN\<close> and the two infinities.
  Comparisons of finite doubles agree with the comparisons of these reals.
\<close>

datatype number = NaN | Infinity | NegInfinity | Finite real

fun isNaN :: "number \<Rightarrow> bool" where
  "isNaN NaN = True"
| "isNaN _ = False"

text \<open>\<^verbatim>\<open>a < b\<close> on numbers: false as soon as one side is \<^verbatim>\<open>NaN\<close>.\<close>

fun num_less :: "number \<Rightarrow> number \<Rightarrow> bool" where
  "num_less NaN _ = False"
| "num_less _ NaN = False"
| "num_less (Finite a) (Finite b) = (a < b)"
| "num_less NegInfinity NegInfinity = False"
| "num_less NegInfinity _ = True"
| "num_less _ NegInfinity = False"
| "num_less Infinity _ = False"
| "num_less _ Infinity = True"

definition num_greater :: "number \<Rightarrow> number \<Rightarrow> bool" where
  "num_greater a b = num_less b a"

text \<open>
  Strings are lists of characters. A value of type \<^verbatim>\<open>string | undefined\<close> is a
  \<open>string option\<close>; in a condition it counts as true when it is a non-empty string.
\<close>

fun truthy :: "string option \<Rightarrow> bool" where
  "truthy None = False"
| "truthy (Some s) = (s \<noteq> [])"

text \<open>\<^verbatim>\<open>a || b\<close> on optional strings: \<open>a\<close> when it is truthy, else \<open>b\<close>.\<close>

definition or_else :: "string option \<Rightarrow> string \<Rightarrow> string" where
  "or_else a b = (case a of None \<Rightarrow> b | Some s \<Rightarrow> if s \<noteq> [] then s else b)"

text \<open>
  The white space that \<^verbatim>\<open>String.prototype.trim\<close> removes, among the characters
  below 256: TAB, LF, VT, FF, CR, space and the no-break space.
\<close>

definition isWhiteSpace :: "char \<Rightarrow> bool" where
  "isWhiteSpace c = (c \<in> set [CHR 0x09, CHR 0x0A, CHR 0x0B, CHR 0x0C, CHR 0x0D, CHR 0x20, CHR 0xA0])"

definition trim :: "string \<Rightarrow> string" where
  "trim s = rev (dropWhile isWhiteSpace (rev (dropWhile isWhiteSpace s)))"

text \<open>\<^verbatim>\<open>Array.prototype.join\<close> on an array of strings.\<close>

fun join :: "string \<Rightarrow> string list \<Rightarrow> string" where
  "join sep [] = []"
| "join sep [x] = x"
| "join sep (x # y # ys) = x @ sep @ join sep (y # ys)"

section \<open>The tables of api.ts\<close>

definition AVAILABLE_MODELS :: "(string \<times> string) list" where
  "AVAILABLE_MODELS =
    [(''gemini-2.0-flash-exp'', ''Gemini 2.0 Flash (experimental) - Fast, general-purpose''),
     (''imagen-3.0-generate-002'', ''Imagen 3 - High quality image generation'')]"

definition AVAILABLE_ASPECT_RATIOS :: "string list" where
  "AVAILABLE_ASPECT_RATIOS =
    [''1:1'', ''2:3'', ''3:2'', ''3:4'', ''4:3'', ''4:5'', ''5:4'', ''9:16'', ''16:9'', ''21:9'']"

definition AVAILABLE_IMAGE_SIZES :: "string list" where
  "AVAILABLE_IMAGE_SIZES = [''1K'', ''2K'', ''4K'']"

text \<open>
  The two lookup tables of api.ts are plain objects, so a key that the table does not
  hold itself is looked up in \<^verbatim>\<open>Object.prototype\<close>. Its twelve properties are
  eleven functions and the prototype itself; each is truthy, and each is kept here as
  the text a template string prints for it.
\<close>

definition Object_prototype :: "(string \<times> string) list" where
  "Object_prototype =
    [(''constructor'', ''function Object() { [native code] }''),
     (''__defineGetter__'', ''function __defineGetter__() { [native code] }''),
     (''__defineSetter__'', ''function __defineSetter__() { [native code] }''),
     (''hasOwnProperty'', ''function hasOwnProperty() { [native code] }''),
     (''__lookupGetter__'', ''function __lookupGetter__() { [native code] }''),
     (''__lookupSetter__'', ''function __lookupSetter__() { [native code] }''),
     (''isPrototypeOf'', ''function isPrototypeOf() { [native code] }''),
     (''propertyIsEnumerable'', ''function propertyIsEnumerable() { [native code] }''),
     (''toString'', ''function toString() { [native code] }''),
     (''valueOf'', ''function valueOf() { [native code] }''),
     (''__proto__'', ''[object Object]''),
     (''toLocaleString'', ''function toLocaleString() { [native code] }'')]"

definition plain_object_get :: "(string \<times> string) list \<Rightarrow> string \<Rightarrow> string option" where
  "plain_object_get own k =
    (case map_of own k of Some v \<Rightarrow> Some v | None \<Rightarrow> map_of Object_prototype k)"

text \<open>
  \<^verbatim>\<open>extensions[mimeType] || ".png"\<close>: the four known types, an inherited property
  for a MIME type that names one, \<^verbatim>\<open>.png\<close> otherwise.
\<close>

definition getExtensionForMimeType :: "string \<Rightarrow> string" where
  "getExtensionForMimeType mimeType =
    or_else (plain_object_get [(''image/png'', ''.png''), (''image/jpeg'', ''.jpg''),
                               (''image/webp'', ''.webp''), (''image/gif'', ''.gif'')] mimeType)
      ''.png''"

section \<open>The option validator of cli.ts\<close>

text \<open>
  \<^verbatim>\<open>CLIOptions\<close> of types.ts: every field is optional.
\<close>

record cli_options =
  cli_prompt :: "string option"
  cli_key :: "string option"
  cli_output :: "string option"
  cli_model :: "string option"
  cli_aspectRatio :: "string option"
  cli_size :: "string option"
  cli_count :: "number option"
  cli_image :: "string option"

definition validateOptions :: "cli_options \<Rightarrow> string option" where
  "validateOptions options =
    (if \<not> truthy (cli_prompt options) \<or> trim (the (cli_prompt options)) = []
     then Some ''Prompt is required. Use -i or --input to specify a prompt.''
     else
       let validModels = map fst AVAILABLE_MODELS in
       if truthy (cli_model options) \<and> the (cli_model options) \<notin> set validModels
       then Some (''Invalid model. Available models: '' @ join '', '' validModels)
       else if truthy (cli_aspectRatio options)
               \<and> the (cli_aspectRatio options) \<notin> set AVAILABLE_ASPECT_RATIOS
       then Some (''Invalid aspect ratio. Available ratios: '' @ join '', '' AVAILABLE_ASPECT_RATIOS)
       else if truthy (cli_size options) \<and> the (cli_size options) \<notin> set AVAILABLE_IMAGE_SIZES
       then Some (''Invalid size. Available sizes: '' @ join '', '' AVAILABLE_IMAGE_SIZES)
       else
         (case cli_count options of
            None \<Rightarrow> None
          | Some c \<Rightarrow>
              if isNaN c \<or> num_less c (Finite 1) \<or> num_greater c (Finite 4)
              then Some ''Count must be a number between 1 and 4.''
              else None))"

text \<open>The options of the test "should return null for valid options", without the count.\<close>

definition test_options :: cli_options where
  "test_options =
    \<lparr>cli_prompt = Some ''test prompt'', cli_key = None, cli_output = None,
     cli_model = Some ''gemini-2.0-flash-exp'', cli_aspectRatio = Some ''16:9'',
     cli_size = Some ''2K'', cli_count = None, cli_image = None\<rparr>"

section \<open>The request and response types\<close>

text \<open>
  The interfaces of types.ts, with the fields this program reads or writes. Left out,
  because no function reads or writes them: \<^verbatim>\<open>outputPath\<close> of the generation
  options, \<^verbatim>\<open>role\<close> of a content, \<^verbatim>\<open>finishReason\<close> and \<^verbatim>\<open>index\<close> of a
  candidate, \<^verbatim>\<open>safetyRatings\<close> of the prompt feedback, \<^verbatim>\<open>code\<close> and
  \<^verbatim>\<open>status\<close> of the error. An optional field is an \<open>option\<close>: \<open>None\<close> is the
  absent key. The error's message is declared as required; the code reads it with
  \<^verbatim>\<open>data.error?.message ||\<close>, so the model lets it be absent as well.
\<close>

text \<open>
  A \<^verbatim>\<open>Buffer\<close> is kept as the base64 text that denotes its bytes
  (\<^verbatim>\<open>Buffer.from(text, "base64")\<close>); the program never looks at the bytes.
\<close>

datatype buffer = Buffer_from_base64 string

fun toString_base64 :: "buffer \<Rightarrow> string" where
  "toString_base64 (Buffer_from_base64 s) = s"

record input_image =
  in_data :: string
  in_mimeType :: string

record image_generation_options =
  prompt :: string
  apiKey :: string
  model :: "string option"
  aspectRatio :: "string option"
  imageSize :: "string option"
  numberOfImages :: "number option"
  inputImage :: "input_image option"

record inline_data =
  inline_mimeType :: string
  inline_data :: string

record content_part =
  part_text :: "string option"
  inlineData :: "inline_data option"

record content =
  parts :: "content_part list"

record image_config =
  ic_aspectRatio :: "string option"
  ic_imageSize :: "string option"

record generation_config =
  responseModalities :: "string list"
  imageConfig :: "image_config option"

record generate_content_request =
  contents :: "content list"
  generationConfig :: generation_config

record http_request =
  req_url :: string
  req_method :: string
  req_headers :: "(string \<times> string) list"
  req_body :: generate_content_request

record api_error =
  err_message :: "string option"

record prompt_feedback =
  blockReason :: "string option"

record candidate =
  cand_content :: content

record generate_content_response =
  candidates :: "candidate list option"
  promptFeedback :: "prompt_feedback option"
  resp_error :: "api_error option"

text \<open>
  What \<^verbatim>\<open>fetch\<close> resolves to: the status line and the outcome of
  \<^verbatim>\<open>response.json()\<close>, which throws (\<open>Inl\<close> of the message) on a body that is
  no JSON.
\<close>

record http_response =
  ok :: bool
  status :: nat
  statusText :: string
  json :: "string + generate_content_response"

record image =
  image_data :: buffer
  image_mimeType :: string

record generation_result =
  success :: bool
  images :: "image list option"
  result_text :: "string option"
  result_error :: "string option"

section \<open>Numbers in template strings\<close>

text \<open>A natural number in decimal, as a template string prints it.\<close>

definition digit_char :: "nat \<Rightarrow> char" where
  "digit_char d =
    (if d = 0 then CHR ''0'' else if d = 1 then CHR ''1'' else if d = 2 then CHR ''2''
     else if d = 3 then CHR ''3'' else if d = 4 then CHR ''4'' else if d = 5 then CHR ''5''
     else if d = 6 then CHR ''6'' else if d = 7 then CHR ''7'' else if d = 8 then CHR ''8''
     else CHR ''9'')"

fun decimal :: "nat \<Rightarrow> string" where
  "decimal n = (if n < 10 then [digit_char n] else decimal (n div 10) @ [digit_char (n mod 10)])"

declare decimal.simps [simp del]

section \<open>generateImage (api.ts)\<close>

definition API_BASE_URL :: string where
  "API_BASE_URL = ''https://generativelanguage.googleapis.com/v1beta/models''"

text \<open>Line 28: the model defaults to \<^verbatim>\<open>gemini-2.0-flash-exp\<close> when it is undefined.\<close>

definition requestUrl :: "image_generation_options \<Rightarrow> string" where
  "requestUrl options =
    API_BASE_URL @ ''/''
      @ (case model options of None \<Rightarrow> ''gemini-2.0-flash-exp'' | Some m \<Rightarrow> m)
      @ '':generateContent''"

text \<open>
  Lines 30 to 62, statement by statement: the parts array with its push, the request
  body, and the image configuration added field by field.
\<close>

definition requestBody :: "image_generation_options \<Rightarrow> generate_content_request" where
  "requestBody options =
    (let parts0 = [\<lparr>part_text = Some (prompt options), inlineData = None\<rparr>];
         parts1 = (case inputImage options of
                     None \<Rightarrow> parts0
                   | Some img \<Rightarrow>
                       parts0 @ [\<lparr>part_text = None,
                                  inlineData = Some \<lparr>inline_mimeType = in_mimeType img,
                                                      inline_data = in_data img\<rparr>\<rparr>]);
         body0 = \<lparr>contents = [\<lparr>parts = parts1\<rparr>],
                  generationConfig = \<lparr>responseModalities = [''TEXT'', ''IMAGE''],
                                      imageConfig = None\<rparr>\<rparr>
     in if truthy (aspectRatio options) \<or> truthy (imageSize options)
        then
          let ic0 = \<lparr>ic_aspectRatio = None, ic_imageSize = None\<rparr>;
              ic1 = (if truthy (aspectRatio options)
                     then ic0\<lparr>ic_aspectRatio := aspectRatio options\<rparr> else ic0);
              ic2 = (if truthy (imageSize options)
                     then ic1\<lparr>ic_imageSize := imageSize options\<rparr> else ic1)
          in body0\<lparr>generationConfig := (generationConfig body0)\<lparr>imageConfig := Some ic2\<rparr>\<rparr>
        else body0)"

definition request :: "image_generation_options \<Rightarrow> http_request" where
  "request options =
    \<lparr>req_url = requestUrl options,
     req_method = ''POST'',
     req_headers = [(''Content-Type'', ''application/json''), (''x-goog-api-key'', apiKey options)],
     req_body = requestBody options\<rparr>"

definition failure :: "string \<Rightarrow> generation_result" where
  "failure msg = \<lparr>success = False, images = None, result_text = None, result_error = Some msg\<rparr>"

text \<open>
  Lines 97 to 112: the two nested loops, with the images array and the text variable
  as the state they update.
\<close>

fun scan_parts :: "content_part list \<Rightarrow> image list \<times> string option \<Rightarrow> image list \<times> string option" where
  "scan_parts [] acc = acc"
| "scan_parts (part # rest) (imgs, tx) =
    scan_parts rest
      ((case inlineData part of
          None \<Rightarrow> imgs
        | Some d \<Rightarrow> imgs @ [\<lparr>image_data = Buffer_from_base64 (inline_data d),
                               image_mimeType = inline_mimeType d\<rparr>]),
       (if truthy (part_text part) then part_text part else tx))"

fun scan_candidates :: "candidate list \<Rightarrow> image list \<times> string option \<Rightarrow> image list \<times> string option" where
  "scan_candidates [] acc = acc"
| "scan_candidates (c # cs) acc = scan_candidates cs (scan_parts (parts (cand_content c)) acc)"

text \<open>\<^verbatim>\<open>data.error?.message\<close> and \<^verbatim>\<open>data.promptFeedback?.blockReason\<close>.\<close>

definition errorMessage :: "generate_content_response \<Rightarrow> string option" where
  "errorMessage d = (case resp_error d of None \<Rightarrow> None | Some e \<Rightarrow> err_message e)"

definition blockReasonOf :: "generate_content_response \<Rightarrow> string option" where
  "blockReasonOf d = (case promptFeedback d of None \<Rightarrow> None | Some f \<Rightarrow> blockReason f)"

text \<open>Lines 76 to 126: the response interpreter, one early return after the other.\<close>

definition interpretResponse :: "http_response \<Rightarrow> generate_content_response \<Rightarrow> generation_result" where
  "interpretResponse response d =
    (if \<not> ok response
     then failure (or_else (errorMessage d)
                     (''HTTP '' @ decimal (status response) @ '': '' @ statusText response))
     else if truthy (blockReasonOf d)
     then failure (''Content blocked: '' @ the (blockReasonOf d))
     else
       (case candidates d of
          None \<Rightarrow> failure ''No candidates returned from API''
        | Some cs \<Rightarrow>
            if length cs = 0 then failure ''No candidates returned from API''
            else
              (case scan_candidates cs ([], None) of
                 (imgs, tx) \<Rightarrow>
                   if length imgs = 0
                   then \<lparr>success = False, images = None, result_text = tx,
                         result_error = Some ''No images generated. The API returned only text.''\<rparr>
                   else \<lparr>success = True, images = Some imgs, result_text = tx,
                         result_error = None\<rparr>)))"

text \<open>
  The whole of generateImage, given what \<^verbatim>\<open>fetch\<close> does with the request: it throws
  (\<open>Inl\<close> of the error's message) or resolves to a response. The catch block turns
  every exception of the try block into a failure.
\<close>

definition generateImage :: "(http_request \<Rightarrow> string + http_response) \<Rightarrow> image_generation_options \<Rightarrow> generation_result" where
  "generateImage fetch options =
    (case fetch (request options) of
       Inl msg \<Rightarrow> failure (''Request failed: '' @ msg)
     | Inr response \<Rightarrow>
         (case json response of
            Inl msg \<Rightarrow> failure (''Request failed: '' @ msg)
          | Inr d \<Rightarrow> interpretResponse response d))"

text \<open>
  The options of the test "should include input image in request when provided", with an
  aspect ratio added.
\<close>

definition modify_options :: image_generation_options where
  "modify_options =
    \<lparr>prompt = ''modify this image'', apiKey = ''valid-api-key-12345'', model = None,
     aspectRatio = Some ''16:9'', imageSize = None, numberOfImages = None,
     inputImage = Some \<lparr>in_data = ''aGVsbG8='', in_mimeType = ''image/png''\<rparr>\<rparr>"

section \<open>The scan of the response, as the specification describes it\<close>

text \<open>
  These definitions follow the words of the specification, not the loops of the code:
  all parts of all candidates in the order of the scan, the inline-data parts among
  them as images, and the text parts that are non-empty strings. The theorems compare
  them with \<open>scan_candidates\<close>.
\<close>

definition toImage :: "inline_data \<Rightarrow> image" where
  "toImage d = \<lparr>image_data = Buffer_from_base64 (inline_data d), image_mimeType = inline_mimeType d\<rparr>"

definition inlineParts :: "content_part list \<Rightarrow> inline_data list" where
  "inlineParts ps = List.map_filter inlineData ps"

definition nonEmptyTexts :: "content_part list \<Rightarrow> string list" where
  "nonEmptyTexts ps = filter (\<lambda>t. t \<noteq> []) (List.map_filter part_text ps)"

definition allParts :: "candidate list \<Rightarrow> content_part list" where
  "allParts cs = concat (map (\<lambda>c. parts (cand_content c)) cs)"

section \<open>Responses used as examples\<close>

text \<open>A response with the given status line whose body parses to the given value.\<close>

definition reply :: "bool \<Rightarrow> nat \<Rightarrow> string \<Rightarrow> generate_content_response \<Rightarrow> http_response" where
  "reply k code phrase d = \<lparr>ok = k, status = code, statusText = phrase, json = Inr d\<rparr>"

definition ok_response :: "generate_content_response \<Rightarrow> http_response" where
  "ok_response d = reply True 200 ''OK'' d"

definition empty_body :: generate_content_response where
  "empty_body = \<lparr>candidates = None, promptFeedback = None, resp_error = None\<rparr>"

text \<open>A response body with one candidate that holds the given parts.\<close>

definition response_of :: "content_part list \<Rightarrow> generate_content_response" where
  "response_of ps =
    \<lparr>candidates = Some [\<lparr>cand_content = \<lparr>parts = ps\<rparr>\<rparr>], promptFeedback = None,
     resp_error = None\<rparr>"

definition two_texts_parts :: "content_part list" where
  "two_texts_parts =
    [\<lparr>part_text = Some ''first'', inlineData = None\<rparr>,
     \<lparr>part_text = None, inlineData = Some \<lparr>inline_mimeType = ''image/png'', inline_data = ''AAAA''\<rparr>\<rparr>,
     \<lparr>part_text = Some ''second'',
      inlineData = Some \<lparr>inline_mimeType = ''image/jpeg'', inline_data = ''BBBB''\<rparr>\<rparr>]"

definition empty_last_text_parts :: "content_part list" where
  "empty_last_text_parts =
    [\<lparr>part_text = Some ''a cat'', inlineData = None\<rparr>,
     \<lparr>part_text = None, inlineData = Some \<lparr>inline_mimeType = ''image/png'', inline_data = ''AAAA''\<rparr>\<rparr>,
     \<lparr>part_text = Some '''', inlineData = None\<rparr>]"

definition error_body :: "string \<Rightarrow> generate_content_response" where
  "error_body msg =
    \<lparr>candidates = None, promptFeedback = None, resp_error = Some \<lparr>err_message = Some msg\<rparr>\<rparr>"

definition blocked_body :: "string \<Rightarrow> generate_content_response" where
  "blocked_body reason =
    \<lparr>candidates = None, promptFeedback = Some \<lparr>blockReason = Some reason\<rparr>, resp_error = None\<rparr>"

definition text_only_parts :: "content_part list" where
  "text_only_parts = [\<lparr>part_text = Some ''I cannot generate that image'', inlineData = None\<rparr>]"

section \<open>The runtime the program runs on\<close>

text \<open>
  What the program gets from outside itself is a parameter of the model: the functions
  of Node's \<^verbatim>\<open>path\<close> module, the working directory, the clock, the environment
  variable, the command-line parser, the network and the file system. \<open>Date_now R k\<close>
  is what the \<open>k\<close>-th call of \<^verbatim>\<open>Date.now()\<close> returns (milliseconds, counted from the
  first call as number 0). \<open>global_fetch\<close> and \<open>fs_readFile\<close> return \<open>Inl\<close> of the
  message of the error they throw, \<open>fs_mkdir\<close> and \<open>fs_writeFile\<close> return the message of
  the error they throw, if any.
\<close>

text \<open>
  What \<^verbatim>\<open>program.opts()\<close> returns after a successful parse: the options as strings,
  with the defaults the program declares (the count defaults to "1").
\<close>

record commander_opts =
  opt_input :: "string option"
  opt_key :: "string option"
  opt_output :: "string option"
  opt_model :: "string option"
  opt_aspectRatio :: "string option"
  opt_size :: "string option"
  opt_count :: string
  opt_image :: "string option"

record runtime =
  path_dirname :: "string \<Rightarrow> string"
  path_basename :: "string \<Rightarrow> string \<Rightarrow> string"
  path_extname :: "string \<Rightarrow> string"
  path_resolve :: "string list \<Rightarrow> string"
  path_isAbsolute :: "string \<Rightarrow> bool"
  process_cwd :: string
  Date_now :: "nat \<Rightarrow> nat"
  GEMINI_API_KEY :: "string option"
  commander_parse :: "string list \<Rightarrow> string + commander_opts"
  global_fetch :: "http_request \<Rightarrow> string + http_response"
  fs_existsSync :: "string \<Rightarrow> bool"
  fs_readFile :: "string \<Rightarrow> string + buffer"
  fs_mkdir :: "string \<Rightarrow> string option"
  fs_writeFile :: "string \<Rightarrow> string option"

text \<open>
  The effects of a run, as a state that the functions pass along: how often the clock
  was read, the requests sent, the directories made and files written, and the lines
  printed.
\<close>

datatype fs_op = Mkdir string | WriteFile string buffer

datatype console_line = ConsoleLog string | ConsoleError string

record world =
  clock_reads :: nat
  requests :: "http_request list"
  fs_ops :: "fs_op list"
  console :: "console_line list"

definition initial_world :: world where
  "initial_world = \<lparr>clock_reads = 0, requests = [], fs_ops = [], console = []\<rparr>"

definition console_log :: "string \<Rightarrow> world \<Rightarrow> world" where
  "console_log line w = w\<lparr>console := console w @ [ConsoleLog line]\<rparr>"

definition console_error :: "string \<Rightarrow> world \<Rightarrow> world" where
  "console_error line w = w\<lparr>console := console w @ [ConsoleError line]\<rparr>"

section \<open>generateOutputFilename (cli.ts)\<close>

text \<open>
  The function reads the clock at every call, before it looks at its arguments: the
  call returns the path and the world in which the clock has been read once more.
\<close>

definition generateOutputFilename :: "runtime \<Rightarrow> string option \<Rightarrow> nat \<Rightarrow> string \<Rightarrow> world \<Rightarrow> string \<times> world" where
  "generateOutputFilename R outputPath index mimeType w =
    (let extension = getExtensionForMimeType mimeType;
         timestamp = Date_now R (clock_reads w);
         w' = w\<lparr>clock_reads := Suc (clock_reads w)\<rparr>
     in if truthy outputPath
        then
          let dir = path_dirname R (the outputPath);
              base = path_basename R (the outputPath) (path_extname R (the outputPath));
              ext = or_else (Some (path_extname R (the outputPath))) extension
          in if index = 0 then (path_resolve R [dir, base @ ext], w')
             else (path_resolve R [dir, base @ ''_'' @ decimal (index + 1) @ ext], w')
        else if index = 0
        then (path_resolve R [process_cwd R, ''generated_'' @ decimal timestamp @ extension], w')
        else (path_resolve R [process_cwd R,
                ''generated_'' @ decimal timestamp @ ''_'' @ decimal (index + 1) @ extension], w'))"

text \<open>
  The directory, the base name and the extension that the function works with, and the
  suffix it puts between the last two: for a non-empty user path they come from the
  path (the extension from the MIME type when the path has none), otherwise from the
  working directory, the time stamp and the MIME type.
\<close>

definition nameDir :: "runtime \<Rightarrow> string option \<Rightarrow> string" where
  "nameDir R outputPath =
    (if truthy outputPath then path_dirname R (the outputPath) else process_cwd R)"

definition nameBase :: "runtime \<Rightarrow> nat \<Rightarrow> string option \<Rightarrow> string" where
  "nameBase R timestamp outputPath =
    (if truthy outputPath
     then path_basename R (the outputPath) (path_extname R (the outputPath))
     else ''generated_'' @ decimal timestamp)"

definition nameExt :: "runtime \<Rightarrow> string option \<Rightarrow> string \<Rightarrow> string" where
  "nameExt R outputPath mimeType =
    (if truthy outputPath \<and> path_extname R (the outputPath) \<noteq> []
     then path_extname R (the outputPath)
     else getExtensionForMimeType mimeType)"

definition indexSuffix :: "nat \<Rightarrow> string" where
  "indexSuffix index = (if index = 0 then [] else ''_'' @ decimal (index + 1))"

section \<open>Node's path functions on POSIX\<close>

text \<open>
  A model of \<^verbatim>\<open>path.posix\<close>, to run the program on concrete inputs. \<open>posix_basename\<close>
  is Node's for a suffix that \<open>posix_extname\<close> returned for the same path.
\<close>

definition isSlash :: "char \<Rightarrow> bool" where
  "isSlash c = (c = CHR ''/'')"

definition lastSegment :: "string \<Rightarrow> string" where
  "lastSegment p = rev (takeWhile (\<lambda>c. \<not> isSlash c) (dropWhile isSlash (rev p)))"

definition posix_extname :: "string \<Rightarrow> string" where
  "posix_extname p =
    (let seg = lastSegment p;
         startDot = length seg - Suc (length (takeWhile (\<lambda>c. c \<noteq> CHR ''.'') (rev seg)))
     in if CHR ''.'' \<notin> set seg \<or> startDot = 0 \<or> seg = ''..'' then []
        else drop startDot seg)"

definition posix_basename :: "string \<Rightarrow> string \<Rightarrow> string" where
  "posix_basename p suffix =
    (let seg = lastSegment p
     in if suffix \<noteq> [] \<and> length suffix < length seg
           \<and> drop (length seg - length suffix) seg = suffix
        then take (length seg - length suffix) seg
        else seg)"

definition posix_dirname :: "string \<Rightarrow> string" where
  "posix_dirname p =
    (if p = [] then ''.''
     else
       let hasRoot = isSlash (hd p);
           r = dropWhile (\<lambda>c. \<not> isSlash c) (dropWhile isSlash (rev (tl p)))
       in if r = [] then (if hasRoot then ''/'' else ''.'')
          else if hasRoot \<and> length r = 1 then ''//''
          else hd p # rev (tl r))"

fun splitSlash :: "string \<Rightarrow> string list" where
  "splitSlash [] = [[]]"
| "splitSlash (c # cs) =
    (if isSlash c then [] # splitSlash cs
     else (case splitSlash cs of s # ss \<Rightarrow> (c # s) # ss | [] \<Rightarrow> [[c]]))"

text \<open>The segments kept so far are a stack with its top first.\<close>

fun normalizeSegments :: "bool \<Rightarrow> string list \<Rightarrow> string list \<Rightarrow> string list" where
  "normalizeSegments allowAboveRoot stack [] = rev stack"
| "normalizeSegments allowAboveRoot stack (s # ss) =
    (if s = [] \<or> s = ''.'' then normalizeSegments allowAboveRoot stack ss
     else if s = ''..''
     then (case stack of
             t # ts \<Rightarrow>
               if t = ''..'' then normalizeSegments allowAboveRoot (s # stack) ss
               else normalizeSegments allowAboveRoot ts ss
           | [] \<Rightarrow>
               if allowAboveRoot then normalizeSegments allowAboveRoot [s] ss
               else normalizeSegments allowAboveRoot [] ss)
     else normalizeSegments allowAboveRoot (s # stack) ss)"

text \<open>
  \<^verbatim>\<open>path.resolve\<close> goes through its arguments from the right, then the working
  directory, and stops at the first absolute path.
\<close>

fun resolveFrom :: "string list \<Rightarrow> string \<Rightarrow> string \<times> bool" where
  "resolveFrom [] resolvedPath = (resolvedPath, False)"
| "resolveFrom (p # ps) resolvedPath =
    (if p = [] then resolveFrom ps resolvedPath
     else if isSlash (hd p) then (p @ ''/'' @ resolvedPath, True)
     else resolveFrom ps (p @ ''/'' @ resolvedPath))"

definition posix_resolve :: "string \<Rightarrow> string list \<Rightarrow> string" where
  "posix_resolve cwd args =
    (case resolveFrom (rev args @ [cwd]) [] of
       (resolvedPath, resolvedAbsolute) \<Rightarrow>
         let n = join ''/'' (normalizeSegments (\<not> resolvedAbsolute) [] (splitSlash resolvedPath))
         in if resolvedAbsolute then ''/'' @ n else if n \<noteq> [] then n else ''.'')"

definition posix_isAbsolute :: "string \<Rightarrow> bool" where
  "posix_isAbsolute p = (p \<noteq> [] \<and> isSlash (hd p))"

section \<open>The command line (cli.ts)\<close>

text \<open>
  \<^verbatim>\<open>parseInt(text, 10)\<close>: leading white space and one sign are skipped, the longest
  run of decimal digits is read, and there is no number without a digit. The value is
  exact in the model; a double rounds it from 2 to the power 53 on.
\<close>

definition isDigit :: "char \<Rightarrow> bool" where
  "isDigit c = (c \<in> set ''0123456789'')"

definition digit_value :: "char \<Rightarrow> nat" where
  "digit_value c = length (takeWhile (\<lambda>d. d \<noteq> c) ''0123456789'')"

definition digits_value :: "string \<Rightarrow> nat" where
  "digits_value ds = foldl (\<lambda>n c. 10 * n + digit_value c) 0 ds"

definition parseInt10 :: "string \<Rightarrow> number" where
  "parseInt10 s =
    (let t = dropWhile isWhiteSpace s;
         negative = (t \<noteq> [] \<and> hd t = CHR ''-'');
         u = (if t \<noteq> [] \<and> (hd t = CHR ''-'' \<or> hd t = CHR ''+'') then tl t else t);
         ds = takeWhile isDigit u
     in if ds = [] then NaN
        else if negative then Finite (- real (digits_value ds))
        else Finite (real (digits_value ds)))"

definition parseOptions :: "commander_opts \<Rightarrow> cli_options" where
  "parseOptions opts =
    \<lparr>cli_prompt = opt_input opts, cli_key = opt_key opts, cli_output = opt_output opts,
     cli_model = opt_model opts, cli_aspectRatio = opt_aspectRatio opts,
     cli_size = opt_size opts, cli_count = Some (parseInt10 (opt_count opts)),
     cli_image = opt_image opts\<rparr>"

definition validateApiKey :: "string option \<Rightarrow> string option" where
  "validateApiKey key =
    (if \<not> truthy key
     then Some ''API key is required. Set GEMINI_API_KEY environment variable or use -k/--key option.''
     else if length (the key) < 10
     then Some ''API key appears to be invalid (too short).''
     else None)"

text \<open>
  \<^verbatim>\<open>toLowerCase\<close> on the characters below 256, and the text after the last dot
  (\<^verbatim>\<open>split(".").pop()\<close>, the whole text when it has no dot). The table is a plain
  object as well: for the extensions \<^verbatim>\<open>constructor\<close> and \<^verbatim>\<open>__proto__\<close> the
  lookup yields the inherited value, kept as the text a template string prints for it.
\<close>

definition toLowerCase :: "string \<Rightarrow> string" where
  "toLowerCase s =
    map (\<lambda>c. let n = (of_char c :: nat)
             in if (65 \<le> n \<and> n \<le> 90) \<or> (192 \<le> n \<and> n \<le> 222 \<and> n \<noteq> 215)
                then char_of (n + 32) else c) s"

definition getMimeTypeFromExtension :: "string \<Rightarrow> string" where
  "getMimeTypeFromExtension filePath =
    (let ext = rev (takeWhile (\<lambda>c. c \<noteq> CHR ''.'') (rev (toLowerCase filePath)))
     in or_else (plain_object_get [(''png'', ''image/png''), (''jpg'', ''image/jpeg''),
                                   (''jpeg'', ''image/jpeg''), (''webp'', ''image/webp''),
                                   (''gif'', ''image/gif'')] ext) ''image/png'')"

text \<open>saveImage: the directory is made first, then the file is written; either may throw.\<close>

definition saveImage :: "runtime \<Rightarrow> buffer \<Rightarrow> string \<Rightarrow> world \<Rightarrow> string option \<times> world" where
  "saveImage R d filePath w =
    (let dir = path_dirname R filePath
     in case fs_mkdir R dir of
          Some e \<Rightarrow> (Some e, w)
        | None \<Rightarrow>
            let w1 = w\<lparr>fs_ops := fs_ops w @ [Mkdir dir]\<rparr>
            in (case fs_writeFile R filePath of
                  Some e \<Rightarrow> (Some e, w1)
                | None \<Rightarrow> (None, w1\<lparr>fs_ops := fs_ops w1 @ [WriteFile filePath d]\<rparr>)))"

definition loadInputImage :: "runtime \<Rightarrow> string \<Rightarrow> string + input_image" where
  "loadInputImage R imagePath =
    (let absolutePath = path_resolve R [imagePath]
     in if \<not> fs_existsSync R absolutePath
        then Inl (''Input image not found: '' @ absolutePath)
        else (case fs_readFile R absolutePath of
                Inl e \<Rightarrow> Inl e
              | Inr imageData \<Rightarrow>
                  Inr \<lparr>in_data = toString_base64 imageData,
                       in_mimeType = getMimeTypeFromExtension absolutePath\<rparr>))"

text \<open>A call of generateImage sends its request: the world records it.\<close>

definition generateImage_call :: "runtime \<Rightarrow> image_generation_options \<Rightarrow> world \<Rightarrow> generation_result \<times> world" where
  "generateImage_call R options w =
    (generateImage (global_fetch R) options, w\<lparr>requests := requests w @ [request options]\<rparr>)"

text \<open>
  Lines 489 to 509 of run: the loop over the images, from index \<open>i\<close>, with the paths
  saved so far. The first component is the exit code when a write failed and the loop
  returned from run.
\<close>

fun save_images :: "runtime \<Rightarrow> string option \<Rightarrow> image list \<Rightarrow> nat \<Rightarrow> string list \<Rightarrow> world \<Rightarrow> nat option \<times> string list \<times> world" where
  "save_images R output [] i savedPaths w = (None, savedPaths, w)"
| "save_images R output (img # rest) i savedPaths w =
    (case generateOutputFilename R output i (image_mimeType img) w of
       (outputPath, w1) \<Rightarrow>
         (case saveImage R (image_data img) outputPath w1 of
            (Some e, w2) \<Rightarrow>
              (Some 1, savedPaths,
               console_error (''Error saving image '' @ decimal (i + 1) @ '': '' @ e) w2)
          | (None, w2) \<Rightarrow>
              save_images R output rest (i + 1) (savedPaths @ [outputPath])
                (console_log (''Image saved: '' @ outputPath) w2)))"

text \<open>A template string prints an undefined value as "undefined".\<close>

definition shown :: "string option \<Rightarrow> string" where
  "shown s = (case s of None \<Rightarrow> ''undefined'' | Some t \<Rightarrow> t)"

text \<open>
  Lines 448 to 461 of run: the input image is loaded when a path is given; \<open>Inl\<close> is the
  message of the error loadInputImage threw.
\<close>

definition loadedInput :: "runtime \<Rightarrow> cli_options \<Rightarrow> string + input_image option" where
  "loadedInput R options =
    (if truthy (cli_image options)
     then (case loadInputImage R (the (cli_image options)) of
             Inl e \<Rightarrow> Inl e
           | Inr img \<Rightarrow> Inr (Some img))
     else Inr None)"

text \<open>Lines 463 to 471 of run: the options passed to generateImage.\<close>

definition generationOptions :: "cli_options \<Rightarrow> string option \<Rightarrow> input_image option \<Rightarrow> image_generation_options" where
  "generationOptions options key inputImg =
    \<lparr>prompt = the (cli_prompt options), apiKey = the key,
     model = cli_model options, aspectRatio = cli_aspectRatio options,
     imageSize = cli_size options, numberOfImages = cli_count options,
     inputImage = inputImg\<rparr>"

text \<open>Lines 436 to 517 of run: what follows the two validations.\<close>

definition run_validated :: "runtime \<Rightarrow> cli_options \<Rightarrow> string option \<Rightarrow> world \<Rightarrow> nat \<times> world" where
  "run_validated R options key w0 =
    (let w1 = console_log (''Generating image with prompt: '' @ [CHR 0x22]
                            @ shown (cli_prompt options) @ [CHR 0x22]) w0;
         w2 = console_log (''Model: '' @ shown (cli_model options)) w1;
         w3 = (if truthy (cli_aspectRatio options)
               then console_log (''Aspect ratio: '' @ the (cli_aspectRatio options)) w2 else w2);
         w4 = (if truthy (cli_size options)
               then console_log (''Size: '' @ the (cli_size options)) w3 else w3);
         w5 = (if truthy (cli_image options)
               then console_log (''Input image: '' @ the (cli_image options)) w4 else w4)
     in case loadedInput R options of
          Inl e \<Rightarrow> (1, console_error (''Error loading input image: '' @ e) w5)
        | Inr inputImg \<Rightarrow>
            let w6 = (case inputImg of
                        None \<Rightarrow> w5
                      | Some img \<Rightarrow>
                          console_log (''Loaded input image ('' @ in_mimeType img @ '')'') w5)
            in (case generateImage_call R (generationOptions options key inputImg) w6 of
                  (result, w7) \<Rightarrow>
                    if \<not> success result
                    then
                      let w8 = console_error (''Error: '' @ shown (result_error result)) w7
                      in (1, if truthy (result_text result)
                             then console_log (''API response text: '' @ the (result_text result)) w8
                             else w8)
                    else if images result = None \<or> length (the (images result)) = 0
                    then (1, console_error ''Error: No images were generated'' w7)
                    else
                      (case save_images R (cli_output options) (the (images result)) 0 [] w7 of
                         (Some code, savedPaths, w8) \<Rightarrow> (code, w8)
                       | (None, savedPaths, w8) \<Rightarrow>
                           let w9 = (if truthy (result_text result)
                                     then console_log ([CHR 0x0A] @ ''API response: ''
                                                        @ the (result_text result)) w8
                                     else w8)
                           in (0, console_log ([CHR 0x0A] @ ''Successfully generated ''
                                                @ decimal (length savedPaths) @ '' image(s).'') w9))))"

text \<open>
  run, from the parse of the command line to the two validations. A parse that throws
  (\<open>Inl\<close> of the message) is reported and ends the run with exit code 1.
\<close>

definition run :: "runtime \<Rightarrow> string list \<Rightarrow> world \<Rightarrow> nat \<times> world" where
  "run R argv w0 =
    (case commander_parse R argv of
       Inl e \<Rightarrow> (1, console_error (''Error: '' @ e) w0)
     | Inr opts \<Rightarrow>
         let options = parseOptions opts;
             key = (if truthy (cli_key options) then cli_key options else GEMINI_API_KEY R);
             apiKeyError = validateApiKey key
         in if truthy apiKeyError
            then (1, console_error (''Error: '' @ the apiKeyError) w0)
            else
              let optionsError = validateOptions options
              in if truthy optionsError
                 then (1, console_error (''Error: '' @ the optionsError) w0)
                 else run_validated R options key w0)"

section \<open>The tool handlers (mcp-server.ts)\<close>











text \<open>The files written, in order, among the operations on the file system.\<close>

fun written :: "fs_op list \<Rightarrow> (string \<times> buffer) list" where
  "written [] = []"
| "written (Mkdir d # ops) = written ops"
| "written (WriteFile p d # ops) = (p, d) # written ops"

section \<open>A runtime for the examples\<close>

text \<open>
  POSIX paths, the working directory \<^verbatim>\<open>/work\<close>, a clock that advances by one
  millisecond from one reading to the next, a valid key in the environment, a file
  system that accepts every write and holds no input image, and a network that answers
  every request with the given response.
\<close>

definition posix_runtime :: "commander_opts \<Rightarrow> (string + http_response) \<Rightarrow> runtime" where
  "posix_runtime opts answer =
    \<lparr>path_dirname = posix_dirname, path_basename = posix_basename,
     path_extname = posix_extname, path_resolve = posix_resolve ''/work'',
     path_isAbsolute = posix_isAbsolute, process_cwd = ''/work'',
     Date_now = (\<lambda>k. 1700000000000 + k),
     GEMINI_API_KEY = Some ''valid-api-key-12345'',
     commander_parse = (\<lambda>argv. Inr opts),
     global_fetch = (\<lambda>req. answer),
     fs_existsSync = (\<lambda>p. False),
     fs_readFile = (\<lambda>p. Inl ''ENOENT: no such file or directory''),
     fs_mkdir = (\<lambda>d. None),
     fs_writeFile = (\<lambda>p. None)\<rparr>"

definition default_opts :: "string \<Rightarrow> commander_opts" where
  "default_opts input =
    \<lparr>opt_input = Some input, opt_key = None, opt_output = None,
     opt_model = Some ''gemini-2.0-flash-exp'', opt_aspectRatio = None, opt_size = None,
     opt_count = ''1'', opt_image = None\<rparr>"

definition two_images :: "image list" where
  "two_images =
    [\<lparr>image_data = Buffer_from_base64 ''AAAA'', image_mimeType = ''image/png''\<rparr>,
     \<lparr>image_data = Buffer_from_base64 ''BBBB'', image_mimeType = ''image/png''\<rparr>]"

definition two_images_parts :: "content_part list" where
  "two_images_parts =
    [\<lparr>part_text = None,
      inlineData = Some \<lparr>inline_mimeType = ''image/png'', inline_data = ''AAAA''\<rparr>\<rparr>,
     \<lparr>part_text = None,
      inlineData = Some \<lparr>inline_mimeType = ''image/png'', inline_data = ''BBBB''\<rparr>\<rparr>]"

section \<open>The path of an image, given the time stamp\<close>

text \<open>
  The path generateOutputFilename returns when the clock reads \<open>timestamp\<close> at its
  call: a function of the time stamp and the three arguments.
\<close>

definition pathAt :: "runtime \<Rightarrow> nat \<Rightarrow> string option \<Rightarrow> nat \<Rightarrow> string \<Rightarrow> string" where
  "pathAt R timestamp outputPath index mimeType =
    path_resolve R [nameDir R outputPath,
      nameBase R timestamp outputPath @ indexSuffix index @ nameExt R outputPath mimeType]"

text \<open>
  The paths of a batch of images saved from index \<open>i\<close> on, when the clock has been
  read \<open>c\<close> times before: the image at position \<open>k\<close> gets the reading number
  \<open>c + k\<close>.
\<close>

definition batchPaths :: "runtime \<Rightarrow> string option \<Rightarrow> image list \<Rightarrow> nat \<Rightarrow> nat \<Rightarrow> string list" where
  "batchPaths R output imgs i c =
    map (\<lambda>k. pathAt R (Date_now R (c + k)) output (i + k) (image_mimeType (imgs ! k)))
      [0..<length imgs]"

text \<open>The runtime of the examples with a clock that stands still.\<close>

definition frozen_runtime :: "commander_opts \<Rightarrow> (string + http_response) \<Rightarrow> runtime" where
  "frozen_runtime opts answer = (posix_runtime opts answer)\<lparr>Date_now := (\<lambda>k. 1700000000000)\<rparr>"




section \<open>Properties of the option validator\<close>

lemma count_check:
  "(isNaN c \<or> num_less c (Finite 1) \<or> num_greater c (Finite 4))
     = (\<nexists>r. c = Finite r \<and> 1 \<le> r \<and> r \<le> 4)"
  by (cases c) (auto simp: num_greater_def)

lemma trim_test_prompt: "trim ''test prompt'' = ''test prompt''"
  by (simp add: trim_def isWhiteSpace_def)

lemma validate_test_options: "validateOptions test_options = None"
  by (simp add: validateOptions_def test_options_def trim_test_prompt AVAILABLE_MODELS_def
      AVAILABLE_ASPECT_RATIOS_def AVAILABLE_IMAGE_SIZES_def)

text \<open>
  C1, as the code has it. When the prompt, the model, the aspect ratio and the size pass
  (the options validate once the count is left out) and the count is set to \<open>c\<close>, the
  validator returns null exactly when \<open>c\<close> is a finite number with \<open>1 \<le> c \<le> 4\<close>,
  whole or not, and the message "Count must be a number between 1 and 4." in every other
  case (\<^verbatim>\<open>NaN\<close>, an infinity, a number below 1 or above 4).
\<close>

theorem validateOptions_count:
  assumes "validateOptions (options\<lparr>cli_count := None\<rparr>) = None"
  shows "validateOptions (options\<lparr>cli_count := Some c\<rparr>)
         = (if \<exists>r. c = Finite r \<and> 1 \<le> r \<and> r \<le> 4 then None
            else Some ''Count must be a number between 1 and 4.'')"
proof -
  have "validateOptions (options\<lparr>cli_count := Some c\<rparr>)
        = (if isNaN c \<or> num_less c (Finite 1) \<or> num_greater c (Finite 4)
           then Some ''Count must be a number between 1 and 4.'' else None)"
    using assms by (auto simp: validateOptions_def Let_def split: if_splits)
  then show ?thesis
    unfolding count_check by simp
qed

theorem validateOptions_count_witness:
  "validateOptions (test_options\<lparr>cli_count := Some (Finite 5)\<rparr>)
     = Some ''Count must be a number between 1 and 4.''
   \<and> validateOptions (test_options\<lparr>cli_count := Some (Finite 2)\<rparr>) = None"
proof -
  have v: "validateOptions (test_options\<lparr>cli_count := None\<rparr>) = None"
    using validate_test_options by (simp add: test_options_def)
  show ?thesis
    using validateOptions_count [OF v, of "Finite 5"] validateOptions_count [OF v, of "Finite 2"]
    by simp
qed

text \<open>
  The claim as written fails at the count 2.5: it is no integer, and the validator
  accepts it.
\<close>

theorem validateOptions_count_counterexample:
  "validateOptions (test_options\<lparr>cli_count := Some (Finite (5 / 2))\<rparr>) = None
   \<and> (5 / 2 :: real) \<notin> \<int>"
  by (simp add: validateOptions_def test_options_def trim_test_prompt AVAILABLE_MODELS_def
      AVAILABLE_ASPECT_RATIOS_def AVAILABLE_IMAGE_SIZES_def num_greater_def)

section \<open>Properties of generateImage\<close>

text \<open>
  C3. The aspect ratio and the size of a GenerationRequest, when set, are members of the
  enumerated sets, hence non-empty strings; the theorem needs no more than that. The
  content parts are the prompt as a text part, followed by one inline-data part
  with the input image's MIME type and base64 payload exactly when an input image is
  present; the image configuration is absent when neither aspect ratio nor size is set,
  and otherwise holds exactly the fields that are set.
\<close>

theorem requestBody_shape:
  assumes "aspectRatio options \<noteq> Some []" and "imageSize options \<noteq> Some []"
  shows "contents (requestBody options) =
           [\<lparr>parts = \<lparr>part_text = Some (prompt options), inlineData = None\<rparr> #
               (case inputImage options of
                  None \<Rightarrow> []
                | Some img \<Rightarrow> [\<lparr>part_text = None,
                                inlineData = Some \<lparr>inline_mimeType = in_mimeType img,
                                                    inline_data = in_data img\<rparr>\<rparr>])\<rparr>]
         \<and> imageConfig (generationConfig (requestBody options)) =
           (if aspectRatio options = None \<and> imageSize options = None then None
            else Some \<lparr>ic_aspectRatio = aspectRatio options,
                       ic_imageSize = imageSize options\<rparr>)"
proof -
  have parts: "contents (requestBody options) =
           [\<lparr>parts = \<lparr>part_text = Some (prompt options), inlineData = None\<rparr> #
               (case inputImage options of
                  None \<Rightarrow> []
                | Some img \<Rightarrow> [\<lparr>part_text = None,
                                inlineData = Some \<lparr>inline_mimeType = in_mimeType img,
                                                    inline_data = in_data img\<rparr>\<rparr>])\<rparr>]"
    by (simp add: requestBody_def Let_def split: option.splits)
  have config: "imageConfig (generationConfig (requestBody options)) =
           (if aspectRatio options = None \<and> imageSize options = None then None
            else Some \<lparr>ic_aspectRatio = aspectRatio options,
                       ic_imageSize = imageSize options\<rparr>)"
    using assms by (cases "aspectRatio options"; cases "imageSize options")
      (simp_all add: requestBody_def Let_def)
  from parts config show ?thesis by simp
qed

theorem requestBody_shape_witness:
  "contents (requestBody modify_options)
     = [\<lparr>parts = [\<lparr>part_text = Some ''modify this image'', inlineData = None\<rparr>,
                   \<lparr>part_text = None,
                    inlineData = Some \<lparr>inline_mimeType = ''image/png'', inline_data = ''aGVsbG8=''\<rparr>\<rparr>]\<rparr>]
   \<and> imageConfig (generationConfig (requestBody modify_options))
     = Some \<lparr>ic_aspectRatio = Some ''16:9'', ic_imageSize = None\<rparr>"
proof -
  have a: "aspectRatio modify_options \<noteq> Some []" and b: "imageSize modify_options \<noteq> Some []"
    by (simp_all add: modify_options_def)
  show ?thesis
    using requestBody_shape [OF a b] by (simp add: modify_options_def)
qed

text \<open>
  C9. The requested number of images reaches neither the URL, nor the headers, nor the
  body of the request, so two option records that differ in it alone send the same
  request and, under the same behaviour of the network, get the same result.
\<close>

theorem numberOfImages_not_transmitted:
  "requestUrl (options\<lparr>numberOfImages := n\<rparr>) = requestUrl options
   \<and> requestBody (options\<lparr>numberOfImages := n\<rparr>) = requestBody options
   \<and> request (options\<lparr>numberOfImages := n\<rparr>) = request options
   \<and> generateImage fetch (options\<lparr>numberOfImages := n\<rparr>) = generateImage fetch options"
proof -
  have url: "requestUrl (options\<lparr>numberOfImages := n\<rparr>) = requestUrl options"
    by (simp add: requestUrl_def)
  have body: "requestBody (options\<lparr>numberOfImages := n\<rparr>) = requestBody options"
    by (simp add: requestBody_def Let_def)
  have req: "request (options\<lparr>numberOfImages := n\<rparr>) = request options"
    by (simp add: request_def url body)
  have "generateImage fetch (options\<lparr>numberOfImages := n\<rparr>) = generateImage fetch options"
    by (simp only: generateImage_def req)
  with url body req show ?thesis by simp
qed

lemma scan_parts_eq:
  "scan_parts ps (imgs, tx)
     = (imgs @ map toImage (inlineParts ps),
        if nonEmptyTexts ps = [] then tx else Some (last (nonEmptyTexts ps)))"
proof (induction ps arbitrary: imgs tx)
  case Nil
  show ?case by (simp add: inlineParts_def nonEmptyTexts_def)
next
  case (Cons p ps)
  show ?case
    by (cases "inlineData p"; cases "part_text p")
      (auto simp: Cons.IH inlineParts_def nonEmptyTexts_def toImage_def)
qed

lemma scan_candidates_eq:
  "scan_candidates cs (imgs, tx)
     = (imgs @ map toImage (inlineParts (allParts cs)),
        if nonEmptyTexts (allParts cs) = [] then tx
        else Some (last (nonEmptyTexts (allParts cs))))"
proof (induction cs arbitrary: imgs tx)
  case Nil
  show ?case by (simp add: allParts_def inlineParts_def nonEmptyTexts_def)
next
  case (Cons c cs)
  have split_inline: "inlineParts (allParts (c # cs))
      = inlineParts (parts (cand_content c)) @ inlineParts (allParts cs)"
    by (simp add: allParts_def inlineParts_def List.map_filter_def)
  have split_text: "nonEmptyTexts (allParts (c # cs))
      = nonEmptyTexts (parts (cand_content c)) @ nonEmptyTexts (allParts cs)"
    by (simp add: allParts_def nonEmptyTexts_def List.map_filter_def)
  show ?case
    by (simp add: scan_parts_eq Cons.IH split_inline split_text)
qed

lemma interpretResponse_scan:
  assumes "ok response" and "\<not> truthy (blockReasonOf d)"
    and "candidates d = Some cs" and "cs \<noteq> []"
  shows "interpretResponse response d =
    (let imgs = map toImage (inlineParts (allParts cs));
         tx = (if nonEmptyTexts (allParts cs) = [] then None
               else Some (last (nonEmptyTexts (allParts cs))))
     in if imgs = []
        then \<lparr>success = False, images = None, result_text = tx,
              result_error = Some ''No images generated. The API returned only text.''\<rparr>
        else \<lparr>success = True, images = Some imgs, result_text = tx, result_error = None\<rparr>)"
  using assms by (simp add: interpretResponse_def scan_candidates_eq Let_def)

text \<open>
  C4, as the code has it. For an OK response with no block reason and a non-empty
  candidate list, the text of the result is the last text part, in the order of the
  scan, that is a non-empty string (none when every text part is empty or absent): a
  later non-empty text overwrites an earlier one, and an empty text part overwrites
  nothing. The images of the result are the inline-data parts in the order of the scan.
\<close>

theorem interpretResponse_last_text:
  assumes "ok response" and "\<not> truthy (blockReasonOf d)"
    and "candidates d = Some cs" and "cs \<noteq> []"
  shows "result_text (interpretResponse response d)
           = (if nonEmptyTexts (allParts cs) = [] then None
              else Some (last (nonEmptyTexts (allParts cs))))
         \<and> images (interpretResponse response d)
           = (if inlineParts (allParts cs) = [] then None
              else Some (map toImage (inlineParts (allParts cs))))"
  using interpretResponse_scan [OF assms] by (simp add: Let_def)

theorem interpretResponse_last_text_witness:
  "result_text (interpretResponse (ok_response (response_of two_texts_parts)) (response_of two_texts_parts)) = Some ''second''
   \<and> images (interpretResponse (ok_response (response_of two_texts_parts)) (response_of two_texts_parts))
     = Some [\<lparr>image_data = Buffer_from_base64 ''AAAA'', image_mimeType = ''image/png''\<rparr>,
             \<lparr>image_data = Buffer_from_base64 ''BBBB'', image_mimeType = ''image/jpeg''\<rparr>]"
proof -
  have a: "ok (ok_response (response_of two_texts_parts))"
    by (simp add: ok_response_def reply_def)
  have b: "\<not> truthy (blockReasonOf (response_of two_texts_parts))"
    by (simp add: response_of_def blockReasonOf_def)
  have c: "candidates (response_of two_texts_parts)
             = Some [\<lparr>cand_content = \<lparr>parts = two_texts_parts\<rparr>\<rparr>]"
    by (simp add: response_of_def)
  have d: "[\<lparr>cand_content = \<lparr>parts = two_texts_parts\<rparr>\<rparr>] \<noteq> []" by simp
  show ?thesis
    using interpretResponse_last_text [OF a b c d]
    by (simp add: allParts_def nonEmptyTexts_def inlineParts_def toImage_def
        two_texts_parts_def List.map_filter_def)
qed

text \<open>
  The claim as written fails when the last text part is the empty string: the scan
  skips it, and the earlier text stays.
\<close>

theorem interpretResponse_last_text_counterexample:
  "result_text (interpretResponse (ok_response (response_of empty_last_text_parts))
        (response_of empty_last_text_parts)) = Some ''a cat''
   \<and> part_text (last empty_last_text_parts) = Some ''''"
  by (simp add: interpretResponse_def ok_response_def reply_def response_of_def blockReasonOf_def
      empty_last_text_parts_def)

text \<open>
  C5, as the code has it. The branches of the response interpreter in their order: a
  non-OK status gives a failure with the vendor's error message when that is a
  non-empty string, and with "HTTP status: statusText" when it is absent or empty; an OK
  response with a non-empty block reason gives "Content blocked: reason"; with no
  candidates or an empty list, "No candidates returned from API"; when the scan finds no
  inline-data part, the failure "No images generated. The API returned only text."
  carrying the text the scan collected; in every other case a success with the images
  and the text.
\<close>

theorem interpretResponse_branches:
  "(\<not> ok response \<and> errorMessage d = Some m \<and> m \<noteq> []
      \<longrightarrow> interpretResponse response d = failure m)
   \<and> (\<not> ok response \<and> (errorMessage d = None \<or> errorMessage d = Some [])
      \<longrightarrow> interpretResponse response d
          = failure (''HTTP '' @ decimal (status response) @ '': '' @ statusText response))
   \<and> (ok response \<and> blockReasonOf d = Some b \<and> b \<noteq> []
      \<longrightarrow> interpretResponse response d = failure (''Content blocked: '' @ b))
   \<and> (ok response \<and> \<not> truthy (blockReasonOf d)
        \<and> (candidates d = None \<or> candidates d = Some [])
      \<longrightarrow> interpretResponse response d = failure ''No candidates returned from API'')
   \<and> (ok response \<and> \<not> truthy (blockReasonOf d) \<and> candidates d = Some cs \<and> cs \<noteq> []
        \<and> inlineParts (allParts cs) = []
      \<longrightarrow> interpretResponse response d
          = \<lparr>success = False, images = None,
             result_text = (if nonEmptyTexts (allParts cs) = [] then None
                            else Some (last (nonEmptyTexts (allParts cs)))),
             result_error = Some ''No images generated. The API returned only text.''\<rparr>)
   \<and> (ok response \<and> \<not> truthy (blockReasonOf d) \<and> candidates d = Some cs \<and> cs \<noteq> []
        \<and> inlineParts (allParts cs) \<noteq> []
      \<longrightarrow> interpretResponse response d
          = \<lparr>success = True, images = Some (map toImage (inlineParts (allParts cs))),
             result_text = (if nonEmptyTexts (allParts cs) = [] then None
                            else Some (last (nonEmptyTexts (allParts cs)))),
             result_error = None\<rparr>)"
proof -
  have not_ok_message: "\<not> ok response \<and> errorMessage d = Some m \<and> m \<noteq> []
      \<longrightarrow> interpretResponse response d = failure m"
    by (simp add: interpretResponse_def or_else_def)
  have not_ok_http: "\<not> ok response \<and> (errorMessage d = None \<or> errorMessage d = Some [])
      \<longrightarrow> interpretResponse response d
          = failure (''HTTP '' @ decimal (status response) @ '': '' @ statusText response)"
    by (auto simp: interpretResponse_def or_else_def)
  have blocked: "ok response \<and> blockReasonOf d = Some b \<and> b \<noteq> []
      \<longrightarrow> interpretResponse response d = failure (''Content blocked: '' @ b)"
    by (simp add: interpretResponse_def)
  have none: "ok response \<and> \<not> truthy (blockReasonOf d)
        \<and> (candidates d = None \<or> candidates d = Some [])
      \<longrightarrow> interpretResponse response d = failure ''No candidates returned from API''"
    by (auto simp: interpretResponse_def)
  have scanned: "ok response \<and> \<not> truthy (blockReasonOf d) \<and> candidates d = Some cs \<and> cs \<noteq> []
      \<longrightarrow> interpretResponse response d =
        (if inlineParts (allParts cs) = []
         then \<lparr>success = False, images = None,
               result_text = (if nonEmptyTexts (allParts cs) = [] then None
                              else Some (last (nonEmptyTexts (allParts cs)))),
               result_error = Some ''No images generated. The API returned only text.''\<rparr>
         else \<lparr>success = True, images = Some (map toImage (inlineParts (allParts cs))),
               result_text = (if nonEmptyTexts (allParts cs) = [] then None
                              else Some (last (nonEmptyTexts (allParts cs)))),
               result_error = None\<rparr>)"
    using interpretResponse_scan [of response d cs] by (simp add: Let_def)
  from not_ok_message not_ok_http blocked none scanned show ?thesis
    by simp
qed

lemma decimal_500: "decimal 500 = ''500''"
  by (simp add: decimal.simps digit_char_def)

theorem interpretResponse_branches_witness:
  "interpretResponse (reply False 400 ''Bad Request'' (error_body ''API key not valid''))
       (error_body ''API key not valid'')
     = failure ''API key not valid''
   \<and> interpretResponse (reply False 500 ''Internal Server Error'' empty_body) empty_body
     = failure ''HTTP 500: Internal Server Error''
   \<and> interpretResponse (ok_response (blocked_body ''SAFETY'')) (blocked_body ''SAFETY'')
     = failure ''Content blocked: SAFETY''
   \<and> interpretResponse (ok_response empty_body) empty_body
     = failure ''No candidates returned from API''
   \<and> interpretResponse (ok_response (response_of text_only_parts)) (response_of text_only_parts)
     = \<lparr>success = False, images = None, result_text = Some ''I cannot generate that image'',
        result_error = Some ''No images generated. The API returned only text.''\<rparr>
   \<and> interpretResponse (ok_response (response_of two_texts_parts)) (response_of two_texts_parts)
     = \<lparr>success = True,
        images = Some [\<lparr>image_data = Buffer_from_base64 ''AAAA'', image_mimeType = ''image/png''\<rparr>,
                       \<lparr>image_data = Buffer_from_base64 ''BBBB'', image_mimeType = ''image/jpeg''\<rparr>],
        result_text = Some ''second'', result_error = None\<rparr>"
proof -
  have 1: "interpretResponse (reply False 400 ''Bad Request'' (error_body ''API key not valid''))
       (error_body ''API key not valid'') = failure ''API key not valid''"
    using interpretResponse_branches
      [of "reply False 400 ''Bad Request'' (error_body ''API key not valid'')"
          "error_body ''API key not valid''" "''API key not valid''"]
    by (simp add: reply_def error_body_def errorMessage_def)
  have 2: "interpretResponse (reply False 500 ''Internal Server Error'' empty_body) empty_body
     = failure ''HTTP 500: Internal Server Error''"
    using interpretResponse_branches [of "reply False 500 ''Internal Server Error'' empty_body" empty_body]
    by (simp add: reply_def empty_body_def errorMessage_def decimal_500)
  have 3: "interpretResponse (ok_response (blocked_body ''SAFETY'')) (blocked_body ''SAFETY'')
     = failure ''Content blocked: SAFETY''"
    using interpretResponse_branches
      [of "ok_response (blocked_body ''SAFETY'')" "blocked_body ''SAFETY''" _ "''SAFETY''"]
    by (simp add: ok_response_def reply_def blocked_body_def blockReasonOf_def)
  have 4: "interpretResponse (ok_response empty_body) empty_body
     = failure ''No candidates returned from API''"
    using interpretResponse_branches [of "ok_response empty_body" empty_body]
    by (simp add: ok_response_def reply_def empty_body_def blockReasonOf_def)
  have 5: "interpretResponse (ok_response (response_of text_only_parts)) (response_of text_only_parts)
     = \<lparr>success = False, images = None, result_text = Some ''I cannot generate that image'',
        result_error = Some ''No images generated. The API returned only text.''\<rparr>"
    using interpretResponse_branches
      [of "ok_response (response_of text_only_parts)" "response_of text_only_parts" _ _
          "[\<lparr>cand_content = \<lparr>parts = text_only_parts\<rparr>\<rparr>]"]
    by (simp add: ok_response_def reply_def response_of_def blockReasonOf_def allParts_def
        inlineParts_def nonEmptyTexts_def text_only_parts_def List.map_filter_def)
  have 6: "interpretResponse (ok_response (response_of two_texts_parts)) (response_of two_texts_parts)
     = \<lparr>success = True,
        images = Some [\<lparr>image_data = Buffer_from_base64 ''AAAA'', image_mimeType = ''image/png''\<rparr>,
                       \<lparr>image_data = Buffer_from_base64 ''BBBB'', image_mimeType = ''image/jpeg''\<rparr>],
        result_text = Some ''second'', result_error = None\<rparr>"
    using interpretResponse_branches
      [of "ok_response (response_of two_texts_parts)" "response_of two_texts_parts" _ _
          "[\<lparr>cand_content = \<lparr>parts = two_texts_parts\<rparr>\<rparr>]"]
    by (simp add: ok_response_def reply_def response_of_def blockReasonOf_def allParts_def
        inlineParts_def nonEmptyTexts_def two_texts_parts_def List.map_filter_def toImage_def)
  from 1 2 3 4 5 6 show ?thesis by simp
qed

text \<open>
  The claim as written fails when the vendor's error message is present and empty: the
  failure carries the synthesized status message, not the vendor's message.
\<close>

theorem interpretResponse_branches_counterexample:
  "interpretResponse (reply False 500 ''Internal Server Error'' (error_body '''')) (error_body '''')
     = failure ''HTTP 500: Internal Server Error''
   \<and> errorMessage (error_body '''') = Some ''''"
  by (simp add: interpretResponse_def reply_def error_body_def errorMessage_def or_else_def
      decimal_500)

section \<open>Properties of generateOutputFilename\<close>

lemma generateOutputFilename_parts:
  "fst (generateOutputFilename R outputPath index mimeType w)
     = path_resolve R [nameDir R outputPath,
         nameBase R (Date_now R (clock_reads w)) outputPath @ indexSuffix index
           @ nameExt R outputPath mimeType]"
  by (simp add: generateOutputFilename_def nameDir_def nameBase_def nameExt_def
      indexSuffix_def or_else_def Let_def)

lemma generateOutputFilename_reads_clock:
  "snd (generateOutputFilename R outputPath index mimeType w)
     = w\<lparr>clock_reads := Suc (clock_reads w)\<rparr>"
  by (simp add: generateOutputFilename_def Let_def)

lemma resolveFrom_absolute:
  "c \<noteq> [] \<Longrightarrow> isSlash (hd c) \<Longrightarrow> snd (resolveFrom (ps @ [c]) acc)"
  by (induction ps arbitrary: acc) auto

lemma posix_resolve_absolute:
  assumes "c \<noteq> []" and "isSlash (hd c)"
  shows "posix_isAbsolute (posix_resolve c args)"
  using resolveFrom_absolute [OF assms, of "rev args" "[]"]
  by (auto simp: posix_resolve_def posix_isAbsolute_def isSlash_def Let_def split: prod.splits)

lemma posix_runtime_absolute:
  "path_isAbsolute (posix_runtime opts answer) (path_resolve (posix_runtime opts answer) ps)"
  by (simp add: posix_runtime_def posix_resolve_absolute isSlash_def)

lemmas posix_eval =
  posix_runtime_def posix_resolve_def posix_dirname_def posix_basename_def posix_extname_def
  lastSegment_def isSlash_def getExtensionForMimeType_def plain_object_get_def or_else_def
  decimal.simps
  digit_char_def Let_def

text \<open>
  C6. Whenever \<^verbatim>\<open>path.resolve\<close> returns absolute paths (its contract), the path that
  generateOutputFilename returns is absolute, for every output path (given or not),
  index and MIME type. The path is the directory resolved with a file name that is the
  base name followed by the extension when the index is 0, and the base name, an
  underscore, the decimal of index + 1 and the extension when the index is 1 or more.
\<close>

theorem generateOutputFilename_absolute_suffix:
  assumes "\<And>ps. path_isAbsolute R (path_resolve R ps)"
  shows "path_isAbsolute R (fst (generateOutputFilename R outputPath index mimeType w))
    \<and> (index = 0 \<longrightarrow>
         fst (generateOutputFilename R outputPath index mimeType w)
           = path_resolve R [nameDir R outputPath,
               nameBase R (Date_now R (clock_reads w)) outputPath
                 @ nameExt R outputPath mimeType])
    \<and> (1 \<le> index \<longrightarrow>
         fst (generateOutputFilename R outputPath index mimeType w)
           = path_resolve R [nameDir R outputPath,
               nameBase R (Date_now R (clock_reads w)) outputPath
                 @ ''_'' @ decimal (index + 1) @ nameExt R outputPath mimeType])"
  using assms by (simp add: generateOutputFilename_parts indexSuffix_def)

theorem generateOutputFilename_absolute_suffix_witness:
  "posix_isAbsolute (fst (generateOutputFilename (posix_runtime (default_opts ''x'') (Inl ''e''))
       None 1 ''image/png'' initial_world))
   \<and> fst (generateOutputFilename (posix_runtime (default_opts ''x'') (Inl ''e''))
       None 1 ''image/png'' initial_world) = ''/work/generated_1700000000000_2.png''
   \<and> fst (generateOutputFilename (posix_runtime (default_opts ''x'') (Inl ''e''))
       (Some ''pics/cat.webp'') 0 ''image/png'' initial_world) = ''/work/pics/cat.webp''
   \<and> fst (generateOutputFilename (posix_runtime (default_opts ''x'') (Inl ''e''))
       (Some ''pics/cat.webp'') 2 ''image/png'' initial_world) = ''/work/pics/cat_3.webp''"
proof -
  let ?R = "posix_runtime (default_opts ''x'') (Inl ''e'')"
  have abs: "\<And>ps. path_isAbsolute ?R (path_resolve ?R ps)"
    by (rule posix_runtime_absolute)
  note a = generateOutputFilename_absolute_suffix [OF abs, of None 1 "''image/png''" initial_world]
  note b = generateOutputFilename_absolute_suffix
      [OF abs, of "Some ''pics/cat.webp''" 0 "''image/png''" initial_world]
  note c = generateOutputFilename_absolute_suffix
      [OF abs, of "Some ''pics/cat.webp''" 2 "''image/png''" initial_world]
  have 1: "posix_isAbsolute (fst (generateOutputFilename ?R None 1 ''image/png'' initial_world))"
    using a [THEN conjunct1] by (simp add: posix_runtime_def)
  have "fst (generateOutputFilename ?R None 1 ''image/png'' initial_world)
      = path_resolve ?R [nameDir ?R None,
          nameBase ?R (Date_now ?R (clock_reads initial_world)) None
            @ ''_'' @ decimal (1 + 1) @ nameExt ?R None ''image/png'']"
    using a [THEN conjunct2, THEN conjunct2] by simp
  then have 2: "fst (generateOutputFilename ?R None 1 ''image/png'' initial_world)
      = ''/work/generated_1700000000000_2.png''"
    by (simp add: nameDir_def nameBase_def nameExt_def initial_world_def posix_eval)
  have "fst (generateOutputFilename ?R (Some ''pics/cat.webp'') 0 ''image/png'' initial_world)
      = path_resolve ?R [nameDir ?R (Some ''pics/cat.webp''),
          nameBase ?R (Date_now ?R (clock_reads initial_world)) (Some ''pics/cat.webp'')
            @ nameExt ?R (Some ''pics/cat.webp'') ''image/png'']"
    using b [THEN conjunct2, THEN conjunct1] by simp
  then have 3: "fst (generateOutputFilename ?R (Some ''pics/cat.webp'') 0 ''image/png'' initial_world)
      = ''/work/pics/cat.webp''"
    by (simp add: nameDir_def nameBase_def nameExt_def initial_world_def posix_eval)
  have "fst (generateOutputFilename ?R (Some ''pics/cat.webp'') 2 ''image/png'' initial_world)
      = path_resolve ?R [nameDir ?R (Some ''pics/cat.webp''),
          nameBase ?R (Date_now ?R (clock_reads initial_world)) (Some ''pics/cat.webp'')
            @ ''_'' @ decimal (2 + 1) @ nameExt ?R (Some ''pics/cat.webp'') ''image/png'']"
    using c [THEN conjunct2, THEN conjunct2] by simp
  then have 4: "fst (generateOutputFilename ?R (Some ''pics/cat.webp'') 2 ''image/png'' initial_world)
      = ''/work/pics/cat_3.webp''"
    by (simp add: nameDir_def nameBase_def nameExt_def initial_world_def posix_eval)
  from 1 2 3 4 show ?thesis by simp
qed

text \<open>
  C7, as the code has it. For a user output path that is a non-empty string, the path
  returned does not depend on the clock (two calls with the same arguments return the
  same path, whenever they are made), and its file name ends with the user path's own
  extension when that is non-empty, with the extension of the MIME type otherwise.
\<close>

theorem generateOutputFilename_user_path:
  assumes "p \<noteq> []"
  shows "fst (generateOutputFilename R (Some p) index mimeType w)
           = fst (generateOutputFilename R (Some p) index mimeType w')
    \<and> fst (generateOutputFilename R (Some p) index mimeType w)
           = path_resolve R [path_dirname R p,
               path_basename R p (path_extname R p) @ indexSuffix index
                 @ (if path_extname R p \<noteq> [] then path_extname R p
                    else getExtensionForMimeType mimeType)]"
  using assms
  by (simp add: generateOutputFilename_parts nameDir_def nameBase_def nameExt_def)

theorem generateOutputFilename_user_path_witness:
  "fst (generateOutputFilename (posix_runtime (default_opts ''x'') (Inl ''e''))
       (Some ''out.jpg'') 0 ''image/png'' initial_world) = ''/work/out.jpg''
   \<and> fst (generateOutputFilename (posix_runtime (default_opts ''x'') (Inl ''e''))
       (Some ''out.jpg'') 0 ''image/png'' (initial_world\<lparr>clock_reads := 5\<rparr>)) = ''/work/out.jpg''
   \<and> fst (generateOutputFilename (posix_runtime (default_opts ''x'') (Inl ''e''))
       (Some ''out'') 0 ''image/jpeg'' initial_world) = ''/work/out.jpg''"
proof -
  let ?R = "posix_runtime (default_opts ''x'') (Inl ''e'')"
  have n1: "''out.jpg'' \<noteq> []" and n2: "''out'' \<noteq> []" by simp_all
  note a = generateOutputFilename_user_path [OF n1, of ?R 0 "''image/png''"]
  note b = generateOutputFilename_user_path [OF n2, of ?R 0 "''image/jpeg''"]
  have 1: "fst (generateOutputFilename ?R (Some ''out.jpg'') 0 ''image/png'' initial_world)
      = ''/work/out.jpg''"
    by (subst a [of initial_world, THEN conjunct2]) (simp add: indexSuffix_def posix_eval)
  have 2: "fst (generateOutputFilename ?R (Some ''out.jpg'') 0 ''image/png''
        (initial_world\<lparr>clock_reads := 5\<rparr>)) = ''/work/out.jpg''"
    using a [of "initial_world\<lparr>clock_reads := 5\<rparr>" initial_world, THEN conjunct1] 1 by simp
  have 3: "fst (generateOutputFilename ?R (Some ''out'') 0 ''image/jpeg'' initial_world)
      = ''/work/out.jpg''"
    by (subst b [of initial_world, THEN conjunct2]) (simp add: indexSuffix_def posix_eval)
  from 1 2 3 show ?thesis by simp
qed

text \<open>
  The claim as written fails for the user path that is the empty string: the function
  treats it as no path, and two calls with the same arguments at different times
  return different paths.
\<close>

theorem generateOutputFilename_user_path_counterexample:
  "fst (generateOutputFilename (posix_runtime (default_opts ''x'') (Inl ''e''))
       (Some '''') 0 ''image/png'' initial_world) = ''/work/generated_1700000000000.png''
   \<and> fst (generateOutputFilename (posix_runtime (default_opts ''x'') (Inl ''e''))
       (Some '''') 0 ''image/png'' (initial_world\<lparr>clock_reads := 1\<rparr>))
     = ''/work/generated_1700000000001.png''"
  by (simp add: generateOutputFilename_def initial_world_def posix_eval)

section \<open>Properties of the save loop, of run and of the tool handlers\<close>

lemma written_append: "written (xs @ ys) = written xs @ written ys"
  by (induction xs rule: written.induct) auto

lemma world_simps:
  "clock_reads (console_log l w) = clock_reads w"
  "fs_ops (console_log l w) = fs_ops w"
  "requests (console_log l w) = requests w"
  "clock_reads (console_error l w) = clock_reads w"
  "fs_ops (console_error l w) = fs_ops w"
  "requests (console_error l w) = requests w"
  by (simp_all add: console_log_def console_error_def)

lemma generateOutputFilename_pathAt:
  "generateOutputFilename R outputPath index mimeType w
     = (pathAt R (Date_now R (clock_reads w)) outputPath index mimeType,
        w\<lparr>clock_reads := Suc (clock_reads w)\<rparr>)"
  using generateOutputFilename_parts [of R outputPath index mimeType w]
    generateOutputFilename_reads_clock [of R outputPath index mimeType w]
  by (simp add: pathAt_def prod_eq_iff)

lemma saveImage_ok:
  assumes "\<And>d. fs_mkdir R d = None" and "\<And>p. fs_writeFile R p = None"
  shows "saveImage R d filePath w
     = (None, w\<lparr>fs_ops := fs_ops w @ [Mkdir (path_dirname R filePath), WriteFile filePath d]\<rparr>)"
  by (simp add: saveImage_def assms Let_def)

lemma batchPaths_Cons:
  "batchPaths R output (img # rest) i c
     = pathAt R (Date_now R c) output i (image_mimeType img) # batchPaths R output rest (Suc i) (Suc c)"
  by (simp add: batchPaths_def map_upt_Suc del: upt_Suc)

lemma save_images_ok:
  assumes "\<And>d. fs_mkdir R d = None" and "\<And>p. fs_writeFile R p = None"
  shows "fst (save_images R output imgs i saved w) = None
    \<and> fst (snd (save_images R output imgs i saved w))
         = saved @ batchPaths R output imgs i (clock_reads w)
    \<and> written (fs_ops (snd (snd (save_images R output imgs i saved w))))
         = written (fs_ops w)
           @ zip (batchPaths R output imgs i (clock_reads w)) (map image_data imgs)
    \<and> requests (snd (snd (save_images R output imgs i saved w))) = requests w"
proof (induction imgs arbitrary: i saved w)
  case Nil
  show ?case by (simp add: batchPaths_def)
next
  case (Cons img rest)
  show ?case
    by (simp add: generateOutputFilename_pathAt saveImage_ok [OF assms] Cons.IH world_simps
        batchPaths_Cons written_append)
qed

lemmas run_eval = generateOutputFilename_def saveImage_def console_log_def
  console_error_def initial_world_def two_images_def

text \<open>
  C2, as the code has it. With no user output path, and a file system that accepts the
  writes, the loop of run saves the image at position \<open>k\<close> of the batch under the
  name \<^verbatim>\<open>generated_<timestamp>\<close> (then the index suffix and the extension) whose
  time stamp is the reading of the clock at the call of generateOutputFilename for that
  image: reading number \<open>clock_reads w + k\<close>. The clock is read once per image, not
  once per run; two images share the time stamp when the clock reads the same at both
  calls.
\<close>

theorem save_images_timestamps:
  assumes "\<And>d. fs_mkdir R d = None" and "\<And>p. fs_writeFile R p = None"
    and "\<not> truthy output"
  shows "fst (snd (save_images R output imgs 0 [] w))
     = map (\<lambda>k. path_resolve R [process_cwd R,
                 ''generated_'' @ decimal (Date_now R (clock_reads w + k)) @ indexSuffix k
                   @ getExtensionForMimeType (image_mimeType (imgs ! k))])
         [0..<length imgs]"
  using save_images_ok [OF assms(1,2), of "output" imgs 0 "[]" w] assms(3)
  by (simp add: batchPaths_def pathAt_def nameDir_def nameBase_def nameExt_def)

theorem save_images_timestamps_witness:
  "fst (snd (save_images (frozen_runtime (default_opts ''x'') (Inl ''e'')) None two_images 0 []
       initial_world))
     = [''/work/generated_1700000000000.png'', ''/work/generated_1700000000000_2.png'']"
proof -
  let ?R = "frozen_runtime (default_opts ''x'') (Inl ''e'')"
  have a: "\<And>d. fs_mkdir ?R d = None" and b: "\<And>p. fs_writeFile ?R p = None"
    by (simp_all add: frozen_runtime_def posix_runtime_def)
  have c: "\<not> truthy None" by simp
  show ?thesis
    by (subst save_images_timestamps [OF a b c])
      (simp add: two_images_def frozen_runtime_def indexSuffix_def posix_eval initial_world_def
        upt_rec [of 0] upt_rec [of 1])
qed

text \<open>
  The claim as written fails as soon as the clock advances between two images: on a
  clock that advances by one millisecond per reading, the two images of a batch are
  saved under the time stamps 1700000000000 and 1700000000001.
\<close>

theorem save_images_timestamps_counterexample:
  "fst (snd (save_images (posix_runtime (default_opts ''x'') (Inl ''e'')) None two_images 0 []
       initial_world))
     = [''/work/generated_1700000000000.png'', ''/work/generated_1700000000001_2.png'']"
  by (simp add: run_eval posix_eval)

lemma validateOptions_message: "validateOptions options = Some e \<Longrightarrow> e \<noteq> []"
  by (auto simp: validateOptions_def Let_def split: if_splits option.splits)

text \<open>
  C8. In every run whose command line parses and in which the option validator returns
  an error \<open>e\<close>, the exit code is 1, no request is sent (generateImage is not called)
  and nothing is written; when the API key passes its check, so that the validator is
  reached, the run prints the one line "Error: e" and does nothing else.
\<close>

theorem run_validation_error:
  assumes "commander_parse R argv = Inr opts"
    and "validateOptions (parseOptions opts) = Some e"
  shows "fst (run R argv w) = 1
    \<and> requests (snd (run R argv w)) = requests w
    \<and> fs_ops (snd (run R argv w)) = fs_ops w
    \<and> (validateApiKey (if truthy (opt_key opts) then opt_key opts else GEMINI_API_KEY R) = None
        \<longrightarrow> run R argv w = (1, console_error (''Error: '' @ e) w))"
  using assms validateOptions_message [OF assms(2)]
  by (auto simp: run_def Let_def world_simps parseOptions_def)

theorem run_validation_error_witness:
  "run (posix_runtime (default_opts ''   '') (Inr (ok_response (response_of two_images_parts))))
       [''node'', ''banana'', ''-i'', ''   ''] initial_world
     = (1, initial_world\<lparr>console :=
            [ConsoleError ''Error: Prompt is required. Use -i or --input to specify a prompt.'']\<rparr>)
   \<and> requests (snd (run (posix_runtime (default_opts ''   '')
                            (Inr (ok_response (response_of two_images_parts))))
       [''node'', ''banana'', ''-i'', ''   ''] initial_world)) = []"
proof -
  let ?R = "posix_runtime (default_opts ''   '') (Inr (ok_response (response_of two_images_parts)))"
  have p: "commander_parse ?R [''node'', ''banana'', ''-i'', ''   ''] = Inr (default_opts ''   '')"
    by (simp add: posix_runtime_def)
  have v: "validateOptions (parseOptions (default_opts ''   ''))
      = Some ''Prompt is required. Use -i or --input to specify a prompt.''"
    by (simp add: validateOptions_def parseOptions_def default_opts_def trim_def isWhiteSpace_def)
  have k: "validateApiKey (if truthy (opt_key (default_opts ''   '')) then opt_key (default_opts ''   '')
        else GEMINI_API_KEY ?R) = None"
    by (simp add: validateApiKey_def default_opts_def posix_runtime_def)
  note t = run_validation_error [OF p v, of initial_world]
  from t k have "run ?R [''node'', ''banana'', ''-i'', ''   ''] initial_world
      = (1, console_error (''Error: '' @ ''Prompt is required. Use -i or --input to specify a prompt.'')
             initial_world)"
    by blast
  moreover from t have "requests (snd (run ?R [''node'', ''banana'', ''-i'', ''   ''] initial_world))
      = requests initial_world"
    by blast
  ultimately show ?thesis
    by (simp add: console_error_def initial_world_def)
qed














end
